theory Spec2Isabelle
  imports Main
begin

section \<open>Text primitives of the Python runtime\<close>

text \<open>
  Text is a list of characters.  The model covers ASCII text: the white space of
  \<^verbatim>\<open>str.strip\<close> and of the regular expression class \<^verbatim>\<open>\s\<close> is the ASCII white space
  (code points 9 to 13, 28 to 31 and 32), a digit of \<^verbatim>\<open>\d\<close> is one of 0 to 9, and
  \<^verbatim>\<open>upper\<close>/\<^verbatim>\<open>lower\<close> change the 26 ASCII letters only.
\<close>

definition is_space :: "char \<Rightarrow> bool" where
  "is_space c = (let n = (of_char c :: nat) in (9 \<le> n \<and> n \<le> 13) \<or> (28 \<le> n \<and> n \<le> 32))"

definition is_digit :: "char \<Rightarrow> bool" where
  "is_digit c = (let n = (of_char c :: nat) in 48 \<le> n \<and> n \<le> 57)"

definition digit_val :: "char \<Rightarrow> nat" where
  "digit_val c = (of_char c :: nat) - 48"

definition digit_char :: "nat \<Rightarrow> char" where
  "digit_char d = char_of (48 + d)"

definition upper_char :: "char \<Rightarrow> char" where
  "upper_char c = (let n = (of_char c :: nat) in if 97 \<le> n \<and> n \<le> 122 then char_of (n - 32) else c)"

definition lower_char :: "char \<Rightarrow> char" where
  "lower_char c = (let n = (of_char c :: nat) in if 65 \<le> n \<and> n \<le> 90 then char_of (n + 32) else c)"

definition upper :: "string \<Rightarrow> string" where
  "upper s = map upper_char s"

definition lower :: "string \<Rightarrow> string" where
  "lower s = map lower_char s"

text \<open>\<^verbatim>\<open>s.strip()\<close>: white space removed at both ends.\<close>

definition strip :: "string \<Rightarrow> string" where
  "strip s = rev (dropWhile is_space (rev (dropWhile is_space s)))"

text \<open>A text that does not begin, or does not end, with white space.\<close>

definition no_lead :: "string \<Rightarrow> bool" where
  "no_lead s = (s = [] \<or> \<not> is_space (hd s))"

definition no_trail :: "string \<Rightarrow> bool" where
  "no_trail s = (s = [] \<or> \<not> is_space (last s))"

text \<open>\<^verbatim>\<open>s.split(sep)\<close> for a one-character separator: never the empty list.\<close>

fun split :: "char \<Rightarrow> string \<Rightarrow> string list" where
  "split sep [] = [[]]"
| "split sep (c # cs) =
     (if c = sep then [] # split sep cs
      else (c # hd (split sep cs)) # tl (split sep cs))"

text \<open>\<^verbatim>\<open>sep.join(fields)\<close> for a one-character separator.\<close>

fun join :: "char \<Rightarrow> string list \<Rightarrow> string" where
  "join sep [] = []"
| "join sep [f] = f"
| "join sep (f # g # fs) = f @ sep # join sep (g # fs)"

text \<open>\<^verbatim>\<open>needle in s\<close> on strings: \<open>needle\<close> is a contiguous part of \<open>s\<close>.\<close>

fun starts_with :: "string \<Rightarrow> string \<Rightarrow> bool" where
  "starts_with [] s = True"
| "starts_with (k # ks) [] = False"
| "starts_with (k # ks) (c # cs) = (k = c \<and> starts_with ks cs)"

fun contains :: "string \<Rightarrow> string \<Rightarrow> bool" where
  "contains needle [] = (needle = [])"
| "contains needle (c # cs) = (starts_with needle (c # cs) \<or> contains needle cs)"

text \<open>
  Text files are opened in text mode: on reading, \<^verbatim>\<open>\r\n\<close> and a lone \<^verbatim>\<open>\r\<close> become
  \<^verbatim>\<open>\n\<close> (universal newlines), and \<^verbatim>\<open>readlines\<close> cuts the text after every \<^verbatim>\<open>\n\<close>, keeping
  it at the end of its line.
\<close>

fun universal_newlines :: "string \<Rightarrow> string" where
  "universal_newlines [] = []"
| "universal_newlines (c # cs) =
     (if c = CHR 0x0D then
        (case cs of
           [] \<Rightarrow> [CHR 0x0A]
         | d # ds \<Rightarrow> if d = CHR 0x0A then CHR 0x0A # universal_newlines ds
                     else CHR 0x0A # universal_newlines cs)
      else c # universal_newlines cs)"

fun cut_lines :: "string \<Rightarrow> string list" where
  "cut_lines [] = []"
| "cut_lines (c # cs) =
     (if c = CHR 0x0A then [c] # cut_lines cs
      else (case cut_lines cs of [] \<Rightarrow> [[c]] | l # ls \<Rightarrow> (c # l) # ls))"

definition readlines :: "string \<Rightarrow> string list" where
  "readlines content = cut_lines (universal_newlines content)"

section \<open>depurador\_csv: the date anomaly detector\<close>

text \<open>
  The four patterns of \<^verbatim>\<open>looks_like_date\<close> are sequences of \<^verbatim>\<open>\d\<close> and literal characters;
  \<^verbatim>\<open>re.search\<close> looks for a match starting at any position.
\<close>

datatype atom = Digit | Lit char

fun atom_ok :: "atom \<Rightarrow> char \<Rightarrow> bool" where
  "atom_ok Digit c = is_digit c"
| "atom_ok (Lit l) c = (c = l)"

fun re_match :: "atom list \<Rightarrow> string \<Rightarrow> bool" where
  "re_match [] s = True"
| "re_match (a # as) [] = False"
| "re_match (a # as) (c # cs) = (atom_ok a c \<and> re_match as cs)"

fun re_search :: "atom list \<Rightarrow> string \<Rightarrow> bool" where
  "re_search p [] = re_match p []"
| "re_search p (c # cs) = (re_match p (c # cs) \<or> re_search p cs)"

definition date_patterns :: "atom list list" where
  "date_patterns =
    [[Digit, Digit, Digit, Digit, Lit CHR ''-'', Digit, Digit, Lit CHR ''-'', Digit, Digit],
     [Digit, Digit, Lit CHR ''/'', Digit, Digit, Lit CHR ''/'', Digit, Digit, Digit, Digit],
     [Digit, Digit, Lit CHR ''-'', Digit, Digit, Lit CHR ''-'', Digit, Digit, Digit, Digit],
     [Digit, Digit, Digit, Digit, Lit CHR ''/'', Digit, Digit, Lit CHR ''/'', Digit, Digit]]"

definition date_keywords :: "string list" where
  "date_keywords =
    [''2024'', ''2025'', ''2023'', ''jan'', ''feb'', ''mar'', ''apr'', ''may'', ''jun'',
     ''jul'', ''aug'', ''sep'', ''oct'', ''nov'', ''dec'', ''am'', ''pm'']"

definition looks_like_date :: "string \<Rightarrow> bool" where
  "looks_like_date v =
     (if v = [] \<or> strip v = [] then False
      else let value_str = strip v in
        if list_ex (\<lambda>p. re_search p value_str) date_patterns then True
        else if list_ex (\<lambda>k. contains k (lower value_str)) date_keywords then True
        else False)"

section \<open>depurador\_csv: the date repair rule engine\<close>

text \<open>
  A \<^verbatim>\<open>datetime\<close> object.  The constructor of the Python class accepts exactly the
  field values of \<open>valid_datetime\<close> and raises \<^verbatim>\<open>ValueError\<close> on every other.
\<close>

record datetime =
  year :: nat
  month :: nat
  day :: nat
  hour :: nat
  minute :: nat
  second :: nat

definition is_leap :: "nat \<Rightarrow> bool" where
  "is_leap y = (y mod 4 = 0 \<and> (y mod 100 \<noteq> 0 \<or> y mod 400 = 0))"

definition days_in_month :: "nat \<Rightarrow> nat \<Rightarrow> nat" where
  "days_in_month y m =
     (if m = 2 then (if is_leap y then 29 else 28)
      else if m = 4 \<or> m = 6 \<or> m = 9 \<or> m = 11 then 30 else 31)"

definition valid_datetime :: "datetime \<Rightarrow> bool" where
  "valid_datetime dt =
     (1 \<le> year dt \<and> year dt \<le> 9999 \<and> 1 \<le> month dt \<and> month dt \<le> 12 \<and>
      1 \<le> day dt \<and> day dt \<le> days_in_month (year dt) (month dt) \<and>
      hour dt \<le> 23 \<and> minute dt \<le> 59 \<and> second dt \<le> 59)"

text \<open>
  \<^verbatim>\<open>strftime('%Y-%m-%d %H:%M:%S')\<close>, the only output format of the program: the year
  on four digits, every other field on two, zero-filled (the form the Python
  documentation gives for \<^verbatim>\<open>%Y\<close>).
\<close>

definition digits2 :: "nat \<Rightarrow> string" where
  "digits2 n = [digit_char (n div 10 mod 10), digit_char (n mod 10)]"

definition digits4 :: "nat \<Rightarrow> string" where
  "digits4 n = [digit_char (n div 1000 mod 10), digit_char (n div 100 mod 10),
                digit_char (n div 10 mod 10), digit_char (n mod 10)]"

definition strftime :: "datetime \<Rightarrow> string" where
  "strftime dt =
     digits4 (year dt) @ CHR ''-'' # digits2 (month dt) @ CHR ''-'' # digits2 (day dt) @
     CHR '' '' # digits2 (hour dt) @ CHR '':'' # digits2 (minute dt) @ CHR '':'' #
     digits2 (second dt)"

text \<open>
  \<^verbatim>\<open>datetime.strptime\<close> turns the format into a regular expression: a directive becomes
  a group of ordered alternatives, each a sequence of character classes (a digit range or
  a blank), a run of white space becomes \<^verbatim>\<open>\s+\<close>, any other character stands for itself.
  The alternatives are those of \<^verbatim>\<open>_strptime.TimeRE\<close>.
\<close>

datatype directive = DY | Dm | Dd | DH | DM | DS

datatype cls = Rng nat nat | Blank

datatype fmt_item = Dir directive | Chr char | Ws

fun cls_ok :: "cls \<Rightarrow> char \<Rightarrow> bool" where
  "cls_ok (Rng lo hi) c = (is_digit c \<and> lo \<le> digit_val c \<and> digit_val c \<le> hi)"
| "cls_ok Blank c = (c = CHR '' '')"

fun alternatives :: "directive \<Rightarrow> cls list list" where
  "alternatives DY = [[Rng 0 9, Rng 0 9, Rng 0 9, Rng 0 9]]"
| "alternatives Dm = [[Rng 1 1, Rng 0 2], [Rng 0 0, Rng 1 9], [Rng 1 9]]"
| "alternatives Dd = [[Rng 3 3, Rng 0 1], [Rng 1 2, Rng 0 9], [Rng 0 0, Rng 1 9], [Rng 1 9],
                      [Blank, Rng 1 9]]"
| "alternatives DH = [[Rng 2 2, Rng 0 3], [Rng 0 1, Rng 0 9], [Rng 0 9]]"
| "alternatives DM = [[Rng 0 5, Rng 0 9], [Rng 0 9]]"
| "alternatives DS = [[Rng 6 6, Rng 0 1], [Rng 0 5, Rng 0 9], [Rng 0 9]]"

fun match_cls :: "cls list \<Rightarrow> string \<Rightarrow> (string \<times> string) option" where
  "match_cls [] s = Some ([], s)"
| "match_cls (k # ks) [] = None"
| "match_cls (k # ks) (c # cs) =
     (if cls_ok k c
      then (case match_cls ks cs of None \<Rightarrow> None | Some (m, r) \<Rightarrow> Some (c # m, r))
      else None)"

text \<open>The first result, in order, of a function tried on the elements of a list.\<close>

fun first_some :: "('a \<Rightarrow> 'b option) \<Rightarrow> 'a list \<Rightarrow> 'b option" where
  "first_some g [] = None"
| "first_some g (x # xs) = (case g x of Some y \<Rightarrow> Some y | None \<Rightarrow> first_some g xs)"

text \<open>
  \<^verbatim>\<open>re.match\<close> of the format's expression: a backtracking search that tries the
  alternatives of a group in their order and the lengths of a white space run from the longest
  down, and returns the first way in which the whole expression matches a beginning of the
  string: the text of every group, and what is left of the string.
\<close>

fun regex_match :: "fmt_item list \<Rightarrow> string \<Rightarrow> (string list \<times> string) option" where
  "regex_match [] s = Some ([], s)"
| "regex_match (Chr l # f) s =
     (case s of [] \<Rightarrow> None | c # cs \<Rightarrow> if c = l then regex_match f cs else None)"
| "regex_match (Ws # f) s =
     first_some (\<lambda>k. regex_match f (drop k s))
       (rev [1 ..< Suc (length (takeWhile is_space s))])"
| "regex_match (Dir d # f) s =
     first_some
       (\<lambda>alt. case match_cls alt s of
                 None \<Rightarrow> None
               | Some (m, r) \<Rightarrow>
                   (case regex_match f r of None \<Rightarrow> None | Some (gs, r') \<Rightarrow> Some (m # gs, r')))
       (alternatives d)"

text \<open>\<^verbatim>\<open>int(text)\<close> on the text of a group: decimal digits, white space around them ignored.\<close>

definition py_int :: "string \<Rightarrow> nat" where
  "py_int s = foldl (\<lambda>a c. 10 * a + digit_val c) 0 (strip s)"

fun directives :: "fmt_item list \<Rightarrow> directive list" where
  "directives [] = []"
| "directives (Dir d # f) = d # directives f"
| "directives (Chr l # f) = directives f"
| "directives (Ws # f) = directives f"

fun set_field :: "datetime \<Rightarrow> directive \<times> string \<Rightarrow> datetime" where
  "set_field dt (DY, t) = dt\<lparr>year := py_int t\<rparr>"
| "set_field dt (Dm, t) = dt\<lparr>month := py_int t\<rparr>"
| "set_field dt (Dd, t) = dt\<lparr>day := py_int t\<rparr>"
| "set_field dt (DH, t) = dt\<lparr>hour := py_int t\<rparr>"
| "set_field dt (DM, t) = dt\<lparr>minute := py_int t\<rparr>"
| "set_field dt (DS, t) = dt\<lparr>second := py_int t\<rparr>"

text \<open>
  \<^verbatim>\<open>datetime.strptime(s, fmt)\<close>; \<open>None\<close> is \<^verbatim>\<open>ValueError\<close>: the expression does not
  match, text is left over after the match, or the fields are no date
  (year 0, a day past the end of its month, second 60 or 61).
\<close>

definition strptime :: "string \<Rightarrow> fmt_item list \<Rightarrow> datetime option" where
  "strptime s f =
     (case regex_match f s of
        None \<Rightarrow> None
      | Some (groups, rest) \<Rightarrow>
          if rest \<noteq> [] then None
          else let dt = foldl set_field
                   \<lparr>year = 1900, month = 1, day = 1, hour = 0, minute = 0, second = 0\<rparr>
                   (zip (directives f) groups)
               in if valid_datetime dt then Some dt else None)"

definition fmt_ymd_dash :: "fmt_item list" where
  "fmt_ymd_dash = [Dir DY, Chr CHR ''-'', Dir Dm, Chr CHR ''-'', Dir Dd, Ws,
                   Dir DH, Chr CHR '':'', Dir DM, Chr CHR '':'', Dir DS]"

definition formats_to_try :: "fmt_item list list" where
  "formats_to_try =
    [fmt_ymd_dash,
     [Dir Dd, Chr CHR ''/'', Dir Dm, Chr CHR ''/'', Dir DY, Ws,
      Dir DH, Chr CHR '':'', Dir DM, Chr CHR '':'', Dir DS],
     [Dir Dm, Chr CHR ''/'', Dir Dd, Chr CHR ''/'', Dir DY, Ws,
      Dir DH, Chr CHR '':'', Dir DM, Chr CHR '':'', Dir DS],
     [Dir DY, Chr CHR ''/'', Dir Dm, Chr CHR ''/'', Dir Dd, Ws,
      Dir DH, Chr CHR '':'', Dir DM, Chr CHR '':'', Dir DS],
     [Dir Dd, Chr CHR ''-'', Dir Dm, Chr CHR ''-'', Dir DY, Ws,
      Dir DH, Chr CHR '':'', Dir DM, Chr CHR '':'', Dir DS],
     [Dir Dm, Chr CHR ''-'', Dir Dd, Chr CHR ''-'', Dir DY, Ws,
      Dir DH, Chr CHR '':'', Dir DM, Chr CHR '':'', Dir DS],
     [Dir DY, Dir Dm, Dir Dd, Dir DH, Dir DM, Dir DS]]"

definition non_date_values :: "string list" where
  "non_date_values =
     [''WPA2'', ''WPA'', ''WEP'', ''OPN'', ''OPEN'', ''UNKNOWN'', ''N/A'', ''NULL'']"

text \<open>
  \<^verbatim>\<open>repair_date_field(value)\<close>.  \<open>now\<close> is what \<^verbatim>\<open>datetime.now()\<close> returns at the call.
  The loop over the formats returns at the first one that parses.
\<close>

definition repair_date_field :: "datetime \<Rightarrow> string \<Rightarrow> string" where
  "repair_date_field now v =
     (if v = [] \<or> strip v = [] then v
      else let value_str = strip v in
        if upper value_str = ''OPEN'' then strftime now
        else if upper value_str \<in> set non_date_values then strftime now
        else (case first_some (strptime value_str) formats_to_try of
                Some parsed_date \<Rightarrow> strftime parsed_date
              | None \<Rightarrow> value_str))"


section \<open>depurador\_csv: analysis and repair of a file\<close>

text \<open>
  Python exceptions that the modelled code can raise.  A file is the text
  \<^verbatim>\<open>open(..., encoding='utf-8', errors='ignore')\<close> decodes, or \<open>None\<close> when the path cannot be
  opened (\<^verbatim>\<open>FileNotFoundError\<close>).  Console output of this module carries no value a caller
  reads and is left out; the model keeps what the functions return and what they write.
\<close>

datatype exn = ValueError | KeyError "string list" | TypeError | FileNotFoundError
  | ParserError | EmptyDataError | CsvError

record problem =
  p_line :: nat
  p_column :: string
  p_value :: string
  p_reason :: string

text \<open>
  What \<^verbatim>\<open>analyze_date_problems\<close> returns is a Python tuple: of two components on the
  short-file path (\<^verbatim>\<open>return None, []\<close>), of three on the other paths.
\<close>

datatype analysis =
  Tuple2 "string list option" "problem list"
| Tuple3 "string list option" "problem list" "(nat \<times> string) list"

definition date_header_keywords :: "string list" where
  "date_header_keywords = [''TIME'', ''DATE'', ''SEEN'', ''FIRST'', ''LAST'']"

definition find_date_columns :: "string list \<Rightarrow> (nat \<times> string) list" where
  "find_date_columns headers =
     filter (\<lambda>(i, header). list_ex (\<lambda>keyword. contains keyword (upper header)) date_header_keywords)
       (enumerate 0 headers)"

text \<open>
  The sampling loop runs over \<^verbatim>\<open>enumerate(lines[2:12], start=3)\<close> and leaves at the first
  \<^verbatim>\<open>line_num >= len(lines)\<close>.
\<close>

definition sampled_lines :: "string list \<Rightarrow> (nat \<times> string) list" where
  "sampled_lines lines =
     takeWhile (\<lambda>(line_num, line). line_num < length lines) (enumerate 3 (take 10 (drop 2 lines)))"

definition line_problems :: "(nat \<times> string) list \<Rightarrow> nat \<times> string \<Rightarrow> problem list" where
  "line_problems date_columns = (\<lambda>(line_num, line).
     let flds = split CHR '','' (strip line) in
     concat (map (\<lambda>(col_idx, col_name).
         if col_idx < length flds \<and> \<not> looks_like_date (flds ! col_idx)
         then [\<lparr>p_line = line_num, p_column = col_name, p_value = flds ! col_idx,
                p_reason = ''No parece fecha''\<rparr>]
         else []) date_columns))"

definition analyze_date_problems :: "string option \<Rightarrow> analysis" where
  "analyze_date_problems csv_file =
     (case csv_file of
        None \<Rightarrow> Tuple3 None [] []
      | Some content \<Rightarrow>
          let lines = readlines content in
          if length lines < 2 then Tuple2 None []
          else
            let headers = split CHR '','' (strip (lines ! 1));
                date_columns = find_date_columns headers;
                problematic_lines = concat (map (line_problems date_columns) (sampled_lines lines))
            in Tuple3 (Some headers) problematic_lines date_columns)"

text \<open>
  The inner loop of \<^verbatim>\<open>repair_date_issues\<close> over the date column indices of one line; the
  state is the field list \<open>flds\<close> and \<^verbatim>\<open>corrections_made\<close>.  \<open>clock col_idx\<close> is what
  \<^verbatim>\<open>datetime.now()\<close> returns in the call for that column.
\<close>

fun repair_columns ::
  "(nat \<Rightarrow> datetime) \<Rightarrow> nat list \<Rightarrow> string list \<times> nat \<Rightarrow> string list \<times> nat" where
  "repair_columns clock [] st = st"
| "repair_columns clock (col_idx # rest) (flds, corrections_made) =
     repair_columns clock rest
       (if col_idx < length flds then
          (let original_value = flds ! col_idx;
               repaired_value = repair_date_field (clock col_idx) original_value
           in if repaired_value \<noteq> original_value
              then (flds[col_idx := repaired_value], corrections_made + 1)
              else (flds, corrections_made))
        else (flds, corrections_made))"

text \<open>
  The outer loop over \<^verbatim>\<open>enumerate(lines)\<close>, from line number \<open>line_num\<close> on: the first two
  lines are kept stripped, every other line is split, repaired and joined again.
\<close>

fun repair_lines ::
  "(nat \<Rightarrow> nat \<Rightarrow> datetime) \<Rightarrow> nat list \<Rightarrow> nat \<Rightarrow> string list \<Rightarrow> nat \<Rightarrow> string list \<times> nat" where
  "repair_lines clock idxs line_num [] corrections_made = ([], corrections_made)"
| "repair_lines clock idxs line_num (line # rest) corrections_made =
     (let original_line = strip line in
      if line_num < 2 then
        (let (out, c) = repair_lines clock idxs (Suc line_num) rest corrections_made
         in (original_line # out, c))
      else
        (let (flds, c1) =
               repair_columns (clock line_num) idxs (split CHR '','' original_line, corrections_made);
             (out, c) = repair_lines clock idxs (Suc line_num) rest c1
         in (join CHR '','' flds # out, c)))"

text \<open>What \<^verbatim>\<open>f.write(line + '\n')\<close> for every repaired line leaves in the output file.\<close>

definition write_lines :: "string list \<Rightarrow> string" where
  "write_lines ls = concat (map (\<lambda>l. l @ [CHR 0x0A]) ls)"

text \<open>
  \<^verbatim>\<open>repair_date_issues(csv_file)\<close>.  The three-name unpacking of the analysis raises
  \<^verbatim>\<open>ValueError\<close> on a tuple of two, before the \<^verbatim>\<open>try\<close> block is entered: \<open>Inl\<close> is an
  exception that leaves the function.  \<open>Inr None\<close> is \<^verbatim>\<open>return None\<close>; \<open>Inr (Some (text, n))\<close>
  is the normal return, with the text written to the output file and the number of
  corrections printed.
\<close>

definition repair_date_issues ::
  "(nat \<Rightarrow> nat \<Rightarrow> datetime) \<Rightarrow> string option \<Rightarrow> exn + (string \<times> nat) option" where
  "repair_date_issues clock csv_file =
     (case analyze_date_problems csv_file of
        Tuple2 a b \<Rightarrow> Inl ValueError
      | Tuple3 headers problematic_lines date_columns \<Rightarrow>
          (case headers of
             None \<Rightarrow> Inr None
           | Some hs \<Rightarrow>
               if hs = [] then Inr None
               else (case csv_file of
                  None \<Rightarrow> Inr None
                | Some content \<Rightarrow>
                    let lines = readlines content;
                        date_column_indices = map fst date_columns;
                        (repaired_lines, corrections_made) =
                           repair_lines clock date_column_indices 0 lines 0
                    in Inr (Some (write_lines repaired_lines, corrections_made)))))"



section \<open>Analisis\_Interferencias: data frames and the pandas calls\<close>

text \<open>
  A cell of a \<^verbatim>\<open>DataFrame\<close> is a string, a number, an integer made by \<^verbatim>\<open>astype(int)\<close>, or
  the missing value.  The numbers of pandas are a type parameter \<open>'n\<close>.  A frame is its column
  labels and its rows, every row as long as the labels; labels can repeat.
  The pandas functions are not part of the repository: \<^verbatim>\<open>pd.read_csv\<close> with its keyword
  arguments and the parser of one numeric text inside \<^verbatim>\<open>pd.to_numeric\<close> are parameters
  (\<open>read_csv\<close>, \<open>num\<close>) of the functions that call them.
\<close>

datatype 'n cell = Str string | Num 'n | IntV int | NaN

record 'n dataframe =
  columns :: "string list"
  rows :: "'n cell list list"

definition isna :: "'n cell \<Rightarrow> bool" where
  "isna c = (case c of NaN \<Rightarrow> True | _ \<Rightarrow> False)"

text \<open>\<^verbatim>\<open>pd.to_numeric(..., errors='coerce')\<close> on one value.\<close>

definition to_numeric :: "(string \<Rightarrow> 'n option) \<Rightarrow> 'n cell \<Rightarrow> 'n cell" where
  "to_numeric num c =
     (case c of Str s \<Rightarrow> (case num s of Some x \<Rightarrow> Num x | None \<Rightarrow> NaN) | _ \<Rightarrow> c)"

text \<open>The values of a row under a label, and a function applied to them in every row.\<close>

definition row_values :: "string list \<Rightarrow> string \<Rightarrow> 'n cell list \<Rightarrow> 'n cell list" where
  "row_values cols name r = map snd (filter (\<lambda>(c, v). c = name) (zip cols r))"

definition map_column :: "string \<Rightarrow> ('n cell \<Rightarrow> 'n cell) \<Rightarrow> 'n dataframe \<Rightarrow> 'n dataframe" where
  "map_column name f df =
     df\<lparr>rows := map (\<lambda>r. map (\<lambda>(c, v). if c = name then f v else v) (zip (columns df) r)) (rows df)\<rparr>"

definition count_na :: "string \<Rightarrow> 'n dataframe \<Rightarrow> nat" where
  "count_na name df = length (filter isna (concat (map (row_values (columns df) name) (rows df))))"

text \<open>
  \<^verbatim>\<open>df.dropna(subset=...)\<close>: \<^verbatim>\<open>KeyError\<close> with the labels of the subset that are no column,
  else the rows with no missing value under the labels of the subset.
\<close>

definition dropna :: "string list \<Rightarrow> 'n dataframe \<Rightarrow> exn + 'n dataframe" where
  "dropna labels df =
     (let missing = filter (\<lambda>c. c \<notin> set (columns df)) labels in
      if missing \<noteq> [] then Inl (KeyError missing)
      else Inr (df\<lparr>rows := filter (\<lambda>r. \<not> list_ex (\<lambda>name. list_ex isna (row_values (columns df) name r)) labels)
                              (rows df)\<rparr>))"

text \<open>The keyword arguments of the \<^verbatim>\<open>pd.read_csv\<close> calls of \<^verbatim>\<open>robust_csv_loader\<close>.\<close>

datatype bad_lines = BadError | BadWarn | BadSkip

datatype csv_engine = EngineC | EnginePython

record read_csv_args =
  skiprows :: nat
  on_bad_lines :: bad_lines
  engine :: csv_engine
  dtype_str :: bool
  sep_inferred :: bool

text \<open>What the functions print, one constructor for each \<^verbatim>\<open>print\<close> of the source.\<close>

datatype msg =
  Loading | Trying nat | StrategyOk nat nat | StrategyFailed nat exn
| TryingManual | ManualFailed exn
| HeadersDetected nat | TotalLines nat | LinesCorrected nat
| Cleaning | InitialShape nat nat | MissingColumns "string list" | AvailableColumns "string list"
| RssiNonNumeric nat | ChannelNonNumeric nat | RowsRemoved nat | FinalShape nat nat
| NoStrategyLoaded | NoValidData | Processed | ValidRows nat | ErrorProcessing exn

section \<open>Analisis\_Interferencias: manual recovery\<close>

text \<open>
  The loop of \<^verbatim>\<open>manual_csv_loader\<close> over \<^verbatim>\<open>lines[2:]\<close>; the state is \<^verbatim>\<open>data\<close> and
  \<^verbatim>\<open>problematic_lines\<close>.
\<close>

fun manual_rows ::
  "nat \<Rightarrow> string list \<Rightarrow> 'n cell list list \<times> nat \<Rightarrow> 'n cell list list \<times> nat" where
  "manual_rows expected_columns [] st = st"
| "manual_rows expected_columns (line # rest) (data, problematic_lines) =
     manual_rows expected_columns rest
       (let flds = split CHR '','' (strip line) in
        if length flds = expected_columns then (data @ [map Str flds], problematic_lines)
        else if length flds > expected_columns
          then (data @ [map Str (take expected_columns flds)], problematic_lines + 1)
        else if length flds < expected_columns
          then (data @ [map Str flds @ replicate (expected_columns - length flds) NaN],
                problematic_lines + 1)
        else (data, problematic_lines + 1))"

text \<open>
  \<^verbatim>\<open>manual_csv_loader(csv_file)\<close>: the value returned or the exception raised, and what was
  printed.  The function returns the frame alone.
\<close>

definition manual_csv_loader :: "string option \<Rightarrow> (exn + 'n dataframe) \<times> msg list" where
  "manual_csv_loader csv_file =
     (case csv_file of
        None \<Rightarrow> (Inl FileNotFoundError, [])
      | Some content \<Rightarrow>
          let lines = readlines content in
          if length lines < 2 then (Inl ValueError, [])
          else
            let headers = split CHR '','' (strip (lines ! 1));
                expected_columns = length headers;
                (data, problematic_lines) = manual_rows expected_columns (drop 2 lines) ([], 0)
            in (Inr \<lparr>columns = headers, rows = data\<rparr>,
                [HeadersDetected expected_columns, TotalLines (length lines)]
                @ (if problematic_lines > 0 then [LinesCorrected problematic_lines] else [])))"

section \<open>Analisis\_Interferencias: the strategy cascade\<close>

definition strategies :: "read_csv_args list" where
  "strategies =
    [\<lparr>skiprows = 1, on_bad_lines = BadError, engine = EngineC, dtype_str = False, sep_inferred = False\<rparr>,
     \<lparr>skiprows = 1, on_bad_lines = BadSkip, engine = EnginePython, dtype_str = False, sep_inferred = False\<rparr>,
     \<lparr>skiprows = 1, on_bad_lines = BadSkip, engine = EngineC, dtype_str = True, sep_inferred = False\<rparr>,
     \<lparr>skiprows = 1, on_bad_lines = BadError, engine = EnginePython, dtype_str = False, sep_inferred = True\<rparr>]"

text \<open>The loop over \<^verbatim>\<open>enumerate(strategies)\<close>, from index \<open>i\<close> on.\<close>

fun try_strategies ::
  "(read_csv_args \<Rightarrow> exn + 'n dataframe) \<Rightarrow> nat \<Rightarrow> read_csv_args list
     \<Rightarrow> 'n dataframe option \<times> msg list" where
  "try_strategies run i [] = (None, [])"
| "try_strategies run i (strategy # rest) =
     (case run strategy of
        Inr df \<Rightarrow> (Some df, [Trying (i + 1), StrategyOk (i + 1) (length (rows df))])
      | Inl e \<Rightarrow>
          (let (r, out) = try_strategies run (Suc i) rest
           in (r, Trying (i + 1) # StrategyFailed (i + 1) e # out)))"

definition robust_csv_loader ::
  "(read_csv_args \<Rightarrow> string option \<Rightarrow> exn + 'n dataframe) \<Rightarrow> string option
     \<Rightarrow> 'n dataframe option \<times> msg list" where
  "robust_csv_loader read_csv csv_file =
     (case try_strategies (\<lambda>args. read_csv args csv_file) 0 strategies of
        (Some df, out) \<Rightarrow> (Some df, Loading # out)
      | (None, out) \<Rightarrow>
          (case manual_csv_loader csv_file of
             (Inr df, mout) \<Rightarrow> (Some df, Loading # out @ TryingManual # mout)
           | (Inl e, mout) \<Rightarrow> (None, Loading # out @ TryingManual # mout @ [ManualFailed e])))"

section \<open>Analisis\_Interferencias: coercion and validation\<close>

text \<open>
  \<^verbatim>\<open>df[name] = pd.to_numeric(df[name], errors='coerce')\<close> for a label that is a column:
  with the label on several columns \<^verbatim>\<open>df[name]\<close> is a frame and \<^verbatim>\<open>to_numeric\<close> raises
  \<^verbatim>\<open>TypeError\<close>.
\<close>

definition coerce_column ::
  "(string \<Rightarrow> 'n option) \<Rightarrow> string \<Rightarrow> 'n dataframe \<Rightarrow> exn + 'n dataframe" where
  "coerce_column num name df =
     (if count_list (columns df) name > 1 then Inl TypeError
      else Inr (map_column name (to_numeric num) df))"

definition clean_and_validate_data ::
  "(string \<Rightarrow> 'n option) \<Rightarrow> 'n dataframe \<Rightarrow> (exn + 'n dataframe) \<times> msg list" where
  "clean_and_validate_data num df =
     (let out0 = [Cleaning, InitialShape (length (rows df)) (length (columns df))];
          missing_columns = filter (\<lambda>col. col \<notin> set (columns df)) [''SSID'', ''RSSI'', ''Channel''];
          out1 = out0 @ (if missing_columns \<noteq> []
                         then [MissingColumns missing_columns, AvailableColumns (columns df)] else []);
          step1 = (if ''RSSI'' \<in> set (columns df) then coerce_column num ''RSSI'' df else Inr df)
      in case step1 of
           Inl e \<Rightarrow> (Inl e, out1)
         | Inr df1 \<Rightarrow>
            (let rssi_nulos = count_na ''RSSI'' df1;
                 out2 = out1 @ (if ''RSSI'' \<in> set (columns df) \<and> rssi_nulos > 0
                                then [RssiNonNumeric rssi_nulos] else []);
                 step2 = (if ''Channel'' \<in> set (columns df1)
                          then coerce_column num ''Channel'' df1 else Inr df1)
             in case step2 of
                  Inl e \<Rightarrow> (Inl e, out2)
                | Inr df2 \<Rightarrow>
                   (let channel_nulos = count_na ''Channel'' df2;
                        out3 = out2 @ (if ''Channel'' \<in> set (columns df1) \<and> channel_nulos > 0
                                       then [ChannelNonNumeric channel_nulos] else []);
                        initial_rows = length (rows df2)
                    in case dropna [''RSSI'', ''Channel''] df2 of
                         Inl e \<Rightarrow> (Inl e, out3)
                       | Inr df3 \<Rightarrow>
                          (let final_rows = length (rows df3);
                               removed_rows = initial_rows - final_rows
                           in (Inr df3,
                               out3 @ (if removed_rows > 0 then [RowsRemoved removed_rows] else [])
                               @ [FinalShape (length (rows df3)) (length (columns df3))])))))"

text \<open>
  The ingestion stage of \<^verbatim>\<open>analyze_wifi_interference\<close> (its first \<^verbatim>\<open>try\<close> block): \<open>None\<close> is
  \<^verbatim>\<open>return None\<close>, \<open>Some df\<close> is the frame the rest of the function reports on.
\<close>

definition analyze_wifi_interference ::
  "(read_csv_args \<Rightarrow> string option \<Rightarrow> exn + 'n dataframe) \<Rightarrow> (string \<Rightarrow> 'n option)
     \<Rightarrow> string option \<Rightarrow> 'n dataframe option \<times> msg list" where
  "analyze_wifi_interference read_csv num csv_file =
     (case robust_csv_loader read_csv csv_file of
        (None, out) \<Rightarrow> (None, out @ [NoStrategyLoaded])
      | (Some df, out) \<Rightarrow>
          (case clean_and_validate_data num df of
             (Inl e, cout) \<Rightarrow> (None, out @ cout @ [ErrorProcessing e])
           | (Inr df', cout) \<Rightarrow>
               if length (rows df') = 0 then (None, out @ cout @ [NoValidData])
               else (Some df', out @ cout @ [Processed, ValidRows (length (rows df'))])))"

section \<open>Properties of the text primitives\<close>















section \<open>The anomaly classifier\<close>




section \<open>Properties of the date repair engine\<close>































lemma upper_Nil_iff: "upper s = [] \<longleftrightarrow> s = []"
  by (simp add: upper_def)









section \<open>The repair rules of one field, and short files\<close>




text \<open>
  Claim C1.  On a file of fewer than two lines the analysis returns a tuple of two components,
  and the repair, which unpacks three, leaves with \<^verbatim>\<open>ValueError\<close> instead of returning
  \<^verbatim>\<open>None\<close>; on a file that cannot be opened both return their no-result value.
\<close>

theorem repair_date_issues_short_file:
  "(length (readlines content) < 2 \<longrightarrow>
      analyze_date_problems (Some content) = Tuple2 None []
      \<and> repair_date_issues clock (Some content) = Inl ValueError)
   \<and> analyze_date_problems None = Tuple3 None [] []
   \<and> repair_date_issues clock None = Inr None"
  by (simp add: analyze_date_problems_def repair_date_issues_def)

theorem repair_date_issues_short_file_witness:
  "analyze_date_problems (Some (''WigleWifi-1.4,appRelease=2.26'' @ [CHR 0x0A])) = Tuple2 None []
   \<and> repair_date_issues (\<lambda>l c. \<lparr>year = 2026, month = 11, day = 3, hour = 9, minute = 5, second = 7\<rparr>)
        (Some (''WigleWifi-1.4,appRelease=2.26'' @ [CHR 0x0A])) = Inl ValueError
   \<and> repair_date_issues (\<lambda>l c. \<lparr>year = 2026, month = 11, day = 3, hour = 9, minute = 5, second = 7\<rparr>)
        (Some []) = Inl ValueError"
proof -
  have "length (readlines (''WigleWifi-1.4,appRelease=2.26'' @ [CHR 0x0A])) < 2"
    "length (readlines []) < 2"
    by code_simp+
  then show ?thesis
    using repair_date_issues_short_file[of "''WigleWifi-1.4,appRelease=2.26'' @ [CHR 0x0A]"]
      repair_date_issues_short_file[of "[]"]
    by simp
qed

section \<open>Stripping, splitting and joining\<close>

lemma dropWhile_no_lead: "no_lead (dropWhile is_space s)"
  by (induction s) (auto simp: no_lead_def)

lemma no_lead_dropWhile: "no_lead s \<Longrightarrow> dropWhile is_space s = s"
  by (cases s) (auto simp: no_lead_def)

lemma no_trail_rev: "no_trail s = no_lead (rev s)"
  by (cases s rule: rev_cases) (auto simp: no_lead_def no_trail_def)

lemma strip_no_trail: "no_trail (strip s)"
  unfolding no_trail_rev strip_def by (simp add: dropWhile_no_lead)

lemma dropWhile_rev_keeps_lead:
  "no_lead s \<Longrightarrow> no_lead (rev (dropWhile P (rev s)))"
proof (induction s rule: rev_induct)
  case Nil
  then show ?case by simp
next
  case (snoc x xs)
  show ?case
  proof (cases "P x")
    case True
    have "no_lead xs" using snoc.prems by (cases xs) (auto simp: no_lead_def)
    with snoc.IH True show ?thesis by simp
  next
    case False
    with snoc.prems show ?thesis by simp
  qed
qed

lemma strip_no_lead: "no_lead (strip s)"
  unfolding strip_def by (rule dropWhile_rev_keeps_lead) (rule dropWhile_no_lead)

lemma strip_fixed: "no_lead s \<Longrightarrow> no_trail s \<Longrightarrow> strip s = s"
  by (simp add: strip_def no_lead_dropWhile no_trail_rev)

lemma strip_fixed_iff: "strip s = s \<longleftrightarrow> no_lead s \<and> no_trail s"
  using strip_fixed[of s] strip_no_lead[of s] strip_no_trail[of s] by auto




lemma strip_Nil_iff: "strip s = [] \<longleftrightarrow> (\<forall>c \<in> set s. is_space c)"
proof
  assume "strip s = []"
  then have a: "\<forall>x \<in> set (dropWhile is_space s). is_space x"
    by (simp add: strip_def dropWhile_eq_Nil_conv)
  have "dropWhile is_space s = []"
  proof (rule ccontr)
    assume n: "dropWhile is_space s \<noteq> []"
    then have "\<not> is_space (hd (dropWhile is_space s))" by (rule hd_dropWhile)
    moreover have "hd (dropWhile is_space s) \<in> set (dropWhile is_space s)" using n by simp
    ultimately show False using a by blast
  qed
  then show "\<forall>c \<in> set s. is_space c" by (simp add: dropWhile_eq_Nil_conv)
next
  assume "\<forall>c \<in> set s. is_space c"
  then have d: "dropWhile is_space s = []" by (simp add: dropWhile_eq_Nil_conv)
  show "strip s = []" unfolding strip_def d by simp
qed

lemma no_lead_strip_Nil: "no_lead s \<Longrightarrow> strip s = [] \<Longrightarrow> s = []"
  by (cases s) (auto simp: no_lead_def strip_Nil_iff)

lemma no_trail_strip_Nil: "no_trail s \<Longrightarrow> strip s = [] \<Longrightarrow> s = []"
  by (cases s rule: rev_cases) (auto simp: no_trail_def strip_Nil_iff)

subsection \<open>Splitting and joining\<close>









lemma join_Nil_iff: "fs \<noteq> [] \<Longrightarrow> join c fs = [] \<longleftrightarrow> fs = [[]]"
  by (induction fs rule: join.induct[of _ c]) auto



section \<open>Reading back what was written, and idempotence of the repair\<close>











subsection \<open>Results of the field repair\<close>













subsection \<open>The loop over the date columns\<close>








subsection \<open>The loop over the lines\<close>







subsection \<open>Repairing a repaired file\<close>





section \<open>Manual recovery of a file\<close>







section \<open>Coercion and validation of a frame\<close>

lemma columns_map_column: "columns (map_column name f df) = columns df"
  by (simp add: map_column_def)












section \<open>A frame without a critical column\<close>

lemma clean_and_validate_data_absent:
  assumes "''RSSI'' \<notin> set (columns df) \<or> ''Channel'' \<notin> set (columns df)"
  shows "\<exists>e out. clean_and_validate_data num df = (Inl e, out)
           \<and> MissingColumns (filter (\<lambda>col. col \<notin> set (columns df)) [''SSID'', ''RSSI'', ''Channel''])
               \<in> set out
           \<and> (e = TypeError
               \<or> e = KeyError (filter (\<lambda>col. col \<notin> set (columns df)) [''RSSI'', ''Channel'']))"
proof (cases "''RSSI'' \<in> set (columns df)")
  case True
  then have c: "''Channel'' \<notin> set (columns df)" using assms by simp
  show ?thesis
    using True c
    by (simp add: clean_and_validate_data_def coerce_column_def dropna_def Let_def columns_map_column)
next
  case False
  show ?thesis
  proof (cases "''Channel'' \<in> set (columns df)")
    case True
    then show ?thesis
      using False
      by (simp add: clean_and_validate_data_def coerce_column_def dropna_def Let_def columns_map_column)
  next
    case c: False
    then show ?thesis
      using False
      by (simp add: clean_and_validate_data_def coerce_column_def dropna_def Let_def columns_map_column)
  qed
qed

text \<open>
  Claim C8.  When \<^verbatim>\<open>RSSI\<close> or \<^verbatim>\<open>Channel\<close> is no column of the frame,
  \<^verbatim>\<open>clean_and_validate_data\<close> prints the warning with the missing columns and then raises: the
  \<^verbatim>\<open>dropna\<close> over both labels has no guard and raises \<^verbatim>\<open>KeyError\<close> (or the coercion of the
  other column has raised \<^verbatim>\<open>TypeError\<close> before).  \<^verbatim>\<open>analyze_wifi_interference\<close> catches the
  exception and returns no result for the file.
\<close>

theorem clean_and_validate_data_absent_column:
  "''RSSI'' \<notin> set (columns df) \<or> ''Channel'' \<notin> set (columns df) \<longrightarrow>
     (\<exists>e out. clean_and_validate_data num df = (Inl e, out)
        \<and> MissingColumns (filter (\<lambda>col. col \<notin> set (columns df)) [''SSID'', ''RSSI'', ''Channel''])
            \<in> set out
        \<and> (e = TypeError
            \<or> e = KeyError (filter (\<lambda>col. col \<notin> set (columns df)) [''RSSI'', ''Channel''])))
     \<and> (fst (robust_csv_loader read_csv csv_file) = Some df \<longrightarrow>
          fst (analyze_wifi_interference read_csv num csv_file) = None)"
proof -
  have "fst (analyze_wifi_interference read_csv num csv_file) = None"
    if a: "''RSSI'' \<notin> set (columns df) \<or> ''Channel'' \<notin> set (columns df)"
      and l: "fst (robust_csv_loader read_csv csv_file) = Some df"
  proof -
    obtain out where o: "robust_csv_loader read_csv csv_file = (Some df, out)"
      using l by (cases "robust_csv_loader read_csv csv_file") simp
    obtain e cout where "clean_and_validate_data num df = (Inl e, cout)"
      using clean_and_validate_data_absent[OF a, of num] by blast
    then show ?thesis by (simp add: analyze_wifi_interference_def o)
  qed
  then show ?thesis using clean_and_validate_data_absent[of df num] by blast
qed

theorem clean_and_validate_data_absent_column_witness:
  "clean_and_validate_data (\<lambda>s. if s = ''6'' then Some (6 :: int) else None)
      \<lparr>columns = [''SSID'', ''Channel''], rows = [[Str ''net'', Str ''6'']]\<rparr>
     = (Inl (KeyError [''RSSI'']),
        [Cleaning, InitialShape 1 2, MissingColumns [''RSSI''], AvailableColumns [''SSID'', ''Channel'']])
   \<and> analyze_wifi_interference (\<lambda>args file. Inl ParserError)
        (\<lambda>s. if s = ''6'' then Some (6 :: int) else None)
        (Some (''meta'' @ [CHR 0x0A] @ ''SSID,Channel'' @ [CHR 0x0A] @ ''net,6'' @ [CHR 0x0A]))
     = (None,
        [Loading, Trying 1, StrategyFailed 1 ParserError, Trying 2, StrategyFailed 2 ParserError,
         Trying 3, StrategyFailed 3 ParserError, Trying 4, StrategyFailed 4 ParserError,
         TryingManual, HeadersDetected 2, TotalLines 3,
         Cleaning, InitialShape 1 2, MissingColumns [''RSSI''], AvailableColumns [''SSID'', ''Channel''],
         ErrorProcessing (KeyError [''RSSI''])])"
proof -
  let ?num = "\<lambda>s. if s = ''6'' then Some (6 :: int) else None"
  let ?df = "\<lparr>columns = [''SSID'', ''Channel''], rows = [[Str ''net'', Str ''6'' :: int cell]]\<rparr>"
  let ?rd = "\<lambda>(args :: read_csv_args) (file :: string option). (Inl ParserError :: exn + int dataframe)"
  let ?f = "Some (''meta'' @ [CHR 0x0A] @ ''SSID,Channel'' @ [CHR 0x0A] @ ''net,6'' @ [CHR 0x0A])"
  have a: "''RSSI'' \<notin> set (columns ?df) \<or> ''Channel'' \<notin> set (columns ?df)" by simp
  have l: "fst (robust_csv_loader ?rd ?f) = Some ?df" by code_simp
  have n: "fst (analyze_wifi_interference ?rd ?num ?f) = None"
    using clean_and_validate_data_absent_column[of ?df ?num ?rd ?f] a l by blast
  have c: "clean_and_validate_data ?num ?df
     = (Inl (KeyError [''RSSI'']),
        [Cleaning, InitialShape 1 2, MissingColumns [''RSSI''], AvailableColumns [''SSID'', ''Channel'']])"
    by code_simp
  have s: "snd (analyze_wifi_interference ?rd ?num ?f)
     = [Loading, Trying 1, StrategyFailed 1 ParserError, Trying 2, StrategyFailed 2 ParserError,
         Trying 3, StrategyFailed 3 ParserError, Trying 4, StrategyFailed 4 ParserError,
         TryingManual, HeadersDetected 2, TotalLines 3,
         Cleaning, InitialShape 1 2, MissingColumns [''RSSI''], AvailableColumns [''SSID'', ''Channel''],
         ErrorProcessing (KeyError [''RSSI''])]"
    by code_simp
  show ?thesis using n c s by (simp add: prod_eq_iff)
qed

section \<open>The strategy cascade of the loader\<close>

lemma try_strategies_first:
  assumes "i < length ss" and "run (ss ! i) = Inr df" and "\<forall>j<i. \<exists>e. run (ss ! j) = Inl e"
  shows "fst (try_strategies run k ss) = Some df"
  using assms
proof (induction ss arbitrary: i k)
  case Nil
  then show ?case by simp
next
  case (Cons s ss)
  show ?case
  proof (cases i)
    case 0
    then show ?thesis using Cons.prems by simp
  next
    case (Suc m)
    then obtain e where e: "run s = Inl e" using Cons.prems(3) by auto
    have "fst (try_strategies run (Suc k) ss) = Some df"
    proof (rule Cons.IH[of m])
      show "m < length ss" using Cons.prems(1) Suc by simp
      show "run (ss ! m) = Inr df" using Cons.prems(2) Suc by simp
      show "\<forall>j<m. \<exists>e. run (ss ! j) = Inl e"
      proof (intro allI impI)
        fix j assume "j < m"
        then have "Suc j < i" using Suc by simp
        then show "\<exists>e. run (ss ! j) = Inl e" using Cons.prems(3) by fastforce
      qed
    qed
    then show ?thesis using e by (simp add: split_beta)
  qed
qed

lemma try_strategies_none:
  assumes "\<forall>j<length ss. \<exists>e. run (ss ! j) = Inl e"
  shows "fst (try_strategies run k ss) = None"
  using assms
proof (induction ss arbitrary: k)
  case Nil
  then show ?case by simp
next
  case (Cons s ss)
  obtain e where e: "run s = Inl e" using Cons.prems by fastforce
  have "\<forall>j<length ss. \<exists>e. run (ss ! j) = Inl e"
  proof (intro allI impI)
    fix j assume "j < length ss"
    then have "Suc j < length (s # ss)" by simp
    then show "\<exists>e. run (ss ! j) = Inl e" using Cons.prems by fastforce
  qed
  then have "fst (try_strategies run (Suc k) ss) = None" by (rule Cons.IH)
  then show ?case using e by (simp add: split_beta)
qed

lemma length_strategies: "length strategies = 4"
  by (simp add: strategies_def)

lemma robust_csv_loader_first:
  assumes "i < 4" and "read_csv (strategies ! i) csv_file = Inr df"
    and "\<forall>j<i. \<exists>e. read_csv (strategies ! j) csv_file = Inl e"
  shows "fst (robust_csv_loader read_csv csv_file) = Some df"
proof -
  have "fst (try_strategies (\<lambda>args. read_csv args csv_file) 0 strategies) = Some df"
    using try_strategies_first[of i strategies "\<lambda>args. read_csv args csv_file" df 0] assms
    by (simp add: length_strategies)
  then show ?thesis
    by (cases "try_strategies (\<lambda>args. read_csv args csv_file) 0 strategies")
       (simp add: robust_csv_loader_def)
qed

lemma robust_csv_loader_manual:
  assumes "\<forall>j<4. \<exists>e. read_csv (strategies ! j) csv_file = Inl e"
  shows "fst (robust_csv_loader read_csv csv_file)
           = (case fst (manual_csv_loader csv_file) of Inr df \<Rightarrow> Some df | Inl e \<Rightarrow> None)"
proof -
  have "fst (try_strategies (\<lambda>args. read_csv args csv_file) 0 strategies) = None"
    using try_strategies_none[of strategies "\<lambda>args. read_csv args csv_file" 0] assms
    by (simp add: length_strategies)
  then show ?thesis
    by (cases "try_strategies (\<lambda>args. read_csv args csv_file) 0 strategies";
        cases "manual_csv_loader csv_file :: (exn + 'a dataframe) \<times> msg list")
       (auto simp: robust_csv_loader_def split: sum.splits)
qed

text \<open>
  Claim C7, amended.  \<^verbatim>\<open>robust_csv_loader\<close> calls \<^verbatim>\<open>pd.read_csv\<close> with four argument sets in
  this order, each skipping the first line of the file: the defaults (a malformed line is an
  error); malformed lines skipped, Python engine; malformed lines skipped and every field read as
  text; the delimiter inferred, Python engine.  It returns the frame of the first call that
  raises nothing, an exception of a call only moves on to the next one, and when all four raise
  the result is the frame of \<^verbatim>\<open>manual_csv_loader\<close>, or \<^verbatim>\<open>None\<close> when that raises too.
\<close>

theorem robust_csv_loader_cascade:
  "map skiprows strategies = [1, 1, 1, 1]
   \<and> map on_bad_lines strategies = [BadError, BadSkip, BadSkip, BadError]
   \<and> map dtype_str strategies = [False, False, True, False]
   \<and> map sep_inferred strategies = [False, False, False, True]
   \<and> map engine strategies = [EngineC, EnginePython, EngineC, EnginePython]
   \<and> (i < 4 \<and> read_csv (strategies ! i) csv_file = Inr df
        \<and> (\<forall>j<i. \<exists>e. read_csv (strategies ! j) csv_file = Inl e) \<longrightarrow>
      fst (robust_csv_loader read_csv csv_file) = Some df)
   \<and> ((\<forall>j<4. \<exists>e. read_csv (strategies ! j) csv_file = Inl e) \<longrightarrow>
      fst (robust_csv_loader read_csv csv_file)
        = (case fst (manual_csv_loader csv_file) of Inr df \<Rightarrow> Some df | Inl e \<Rightarrow> None))"
proof -
  have "map skiprows strategies = [1, 1, 1, 1]"
    and "map on_bad_lines strategies = [BadError, BadSkip, BadSkip, BadError]"
    and "map dtype_str strategies = [False, False, True, False]"
    and "map sep_inferred strategies = [False, False, False, True]"
    and "map engine strategies = [EngineC, EnginePython, EngineC, EnginePython]"
    by (simp_all add: strategies_def)
  then show ?thesis
    using robust_csv_loader_first[of i read_csv csv_file df]
      robust_csv_loader_manual[of read_csv csv_file]
    by blast
qed

theorem robust_csv_loader_cascade_witness:
  "fst (robust_csv_loader
          (\<lambda>args file. if on_bad_lines args = BadError then Inl ParserError
                        else Inr \<lparr>columns = [''a''], rows = [[if dtype_str args then Str ''1'' else Num (1 :: int)]]\<rparr>)
          (Some ''m''))
     = Some \<lparr>columns = [''a''], rows = [[Num 1]]\<rparr>
   \<and> fst (robust_csv_loader (\<lambda>args file. (Inl ParserError :: exn + int dataframe)) (Some ''m'')) = None
   \<and> fst (robust_csv_loader (\<lambda>args file. (Inl ParserError :: exn + int dataframe))
            (Some (''m'' @ [CHR 0x0A] @ ''a,b'' @ [CHR 0x0A] @ ''1,2,3'')))
     = Some \<lparr>columns = [''a'', ''b''], rows = [[Str ''1'', Str ''2'']]\<rparr>"
proof -
  let ?rd = "\<lambda>(args :: read_csv_args) (file :: string option).
               if on_bad_lines args = BadError then Inl ParserError
               else Inr \<lparr>columns = [''a''], rows = [[if dtype_str args then Str ''1'' else Num (1 :: int)]]\<rparr>"
  let ?fail = "\<lambda>(args :: read_csv_args) (file :: string option). (Inl ParserError :: exn + int dataframe)"
  let ?f = "Some (''m'' @ [CHR 0x0A] @ ''a,b'' @ [CHR 0x0A] @ ''1,2,3'')"
  have a: "fst (robust_csv_loader ?rd (Some ''m'')) = Some \<lparr>columns = [''a''], rows = [[Num 1]]\<rparr>"
    by (rule mp[OF robust_csv_loader_cascade[of 1 ?rd "Some ''m''" "\<lparr>columns = [''a''], rows = [[Num 1]]\<rparr>",
            THEN conjunct2, THEN conjunct2, THEN conjunct2, THEN conjunct2, THEN conjunct2,
            THEN conjunct1]])
       (simp add: strategies_def)
  have m1: "fst (manual_csv_loader (Some ''m'') :: (exn + int dataframe) \<times> msg list) = Inl ValueError"
    by code_simp
  have m2: "fst (manual_csv_loader ?f :: (exn + int dataframe) \<times> msg list)
              = Inr \<lparr>columns = [''a'', ''b''], rows = [[Str ''1'', Str ''2'']]\<rparr>"
    by code_simp
  have "fst (robust_csv_loader ?fail (Some ''m''))
          = (case fst (manual_csv_loader (Some ''m'') :: (exn + int dataframe) \<times> msg list) of
               Inr df \<Rightarrow> Some df | Inl e \<Rightarrow> None)"
    by (rule mp[OF robust_csv_loader_cascade[of 0 ?fail "Some ''m''" "\<lparr>columns = [], rows = []\<rparr>",
            THEN conjunct2, THEN conjunct2, THEN conjunct2, THEN conjunct2, THEN conjunct2,
            THEN conjunct2]])
       simp
  then have b: "fst (robust_csv_loader ?fail (Some ''m'')) = None"
    unfolding m1 by simp
  have "fst (robust_csv_loader ?fail ?f)
          = (case fst (manual_csv_loader ?f :: (exn + int dataframe) \<times> msg list) of
               Inr df \<Rightarrow> Some df | Inl e \<Rightarrow> None)"
    by (rule mp[OF robust_csv_loader_cascade[of 0 ?fail ?f "\<lparr>columns = [], rows = []\<rparr>",
            THEN conjunct2, THEN conjunct2, THEN conjunct2, THEN conjunct2, THEN conjunct2,
            THEN conjunct2]])
       simp
  then have c: "fst (robust_csv_loader ?fail ?f) = Some \<lparr>columns = [''a'', ''b''], rows = [[Str ''1'', Str ''2'']]\<rparr>"
    unfolding m2 by simp
  show ?thesis using a b c by (intro conjI)
qed

theorem robust_csv_loader_counterexample:
  "dtype_str (strategies ! 2) \<and> on_bad_lines (strategies ! 2) = BadSkip
   \<and> on_bad_lines (strategies ! 2) \<noteq> BadError
   \<and> on_bad_lines (strategies ! 0) = BadError"
  by (simp add: strategies_def)

end
